theory Spec2Isabelle
  imports Complex_Main "HOL-Library.Multiset"
begin

section \<open>Strings\<close>

text \<open>
  A Python \<open>str\<close> is modelled as a HOL \<open>string\<close>, one \<open>char\<close> per character, so
  \<open>length\<close> is Python's \<open>len\<close> and \<open>take n\<close> is the slice \<open>[:n]\<close>. The case mappings
  \<open>str.lower\<close> and \<open>str.upper\<close> are modelled on the ASCII letters and leave every other
  character unchanged; \<open>str.split()\<close> splits at the ASCII whitespace characters.
\<close>

definition is_space :: "char \<Rightarrow> bool" where
  "is_space c = (let n = (of_char c :: nat) in (9 \<le> n \<and> n \<le> 13) \<or> (28 \<le> n \<and> n \<le> 32))"

definition lower_char :: "char \<Rightarrow> char" where
  "lower_char c = (let n = (of_char c :: nat) in if 65 \<le> n \<and> n \<le> 90 then char_of (n + 32) else c)"

definition upper_char :: "char \<Rightarrow> char" where
  "upper_char c = (let n = (of_char c :: nat) in if 97 \<le> n \<and> n \<le> 122 then char_of (n - 32) else c)"

definition lower :: "string \<Rightarrow> string" where
  "lower s = map lower_char s"

definition upper :: "string \<Rightarrow> string" where
  "upper s = map upper_char s"

text \<open>
  \<open>s.split()\<close>: the maximal runs of non-whitespace characters of \<open>s\<close>, in order. The
  first argument is the word being read.
\<close>

fun split_words :: "string \<Rightarrow> string \<Rightarrow> string list" where
  "split_words cur [] = (if cur = [] then [] else [cur])"
| "split_words cur (c # cs) =
     (if is_space c
      then (if cur = [] then split_words [] cs else cur # split_words [] cs)
      else split_words (cur @ [c]) cs)"

definition split :: "string \<Rightarrow> string list" where
  "split s = split_words [] s"

text \<open>\<open>s.split("/")[-1]\<close>: what follows the last slash, the whole string when there is none.\<close>

definition last_segment :: "string \<Rightarrow> string" where
  "last_segment s = rev (takeWhile (\<lambda>c. c \<noteq> CHR ''/'') (rev s))"

definition startswith :: "string \<Rightarrow> string \<Rightarrow> bool" where
  "startswith s p = (take (length p) s = p)"

section \<open>The annotator\<close>

record ai_data =
  ai_tags :: "string list"
  ai_summary :: string

definition common_words :: "string list" where
  "common_words = [''the'', ''and'', ''or'', ''but'', ''in'', ''on'', ''at'', ''to'', ''for'', ''of'', ''a'', ''an'']"

definition is_textual :: "string \<Rightarrow> bool" where
  "is_textual mime_type = (startswith mime_type ''text/'' \<or> mime_type = ''application/json'')"

text \<open>
  \<open>list(set(keywords))\<close> keeps one copy of every keyword, in an order Python does not
  fix; \<open>remdups\<close> is one such order. \<open>xs or ys\<close> is \<open>ys\<close> when \<open>xs\<close> is empty.
\<close>

definition generate_tags_and_summary :: "string \<Rightarrow> string \<Rightarrow> ai_data" where
  "generate_tags_and_summary content mime_type =
     (if is_textual mime_type then
        (let words = take 100 (split (lower content));
             keywords = take 5 (filter (\<lambda>w. w \<notin> set common_words \<and> length w > 3) words);
             uniq = take 5 (remdups keywords);
             tags = (if uniq = [] then [''document'', ''text'', ''file''] else uniq);
             summary = (if length content > 200 then take 200 content @ ''...'' else content)
         in \<lparr>ai_tags = tags, ai_summary = summary\<rparr>)
      else
        (let file_type = upper (last_segment mime_type);
             tags = [file_type, ''media'', ''file''];
             summary = file_type @ '' file uploaded to OmniMind''
         in \<lparr>ai_tags = tags, ai_summary = summary\<rparr>))"

section \<open>Data model\<close>

text \<open>
  The pydantic models of the API. The field \<open>id\<close> of a \<open>Document\<close> is \<open>doc_ident\<close>
  here, and the other fields carry the prefix \<open>doc_\<close>. \<open>created_at\<close> is a point in
  time, a natural number here (its rendering by \<open>isoformat\<close> is not modelled); \<open>metadata\<close> is the annotator's output or
  the empty dictionary, which is \<open>None\<close> here; \<open>similarity\<close> is a Python float, a real here.
\<close>

record Document =
  doc_ident :: string
  doc_filename :: string
  doc_content :: string
  doc_mime_type :: string
  doc_created_at :: nat
  doc_tags :: "string list"
  doc_metadata :: "ai_data option"
  doc_similarity :: "real option"

record DocumentCreate =
  dc_filename :: string
  dc_content :: string
  dc_mimeType :: string

record SearchQuery =
  sq_query :: string

record DeleteResponse =
  success :: bool

subsection \<open>The three stores\<close>

text \<open>
  PostgreSQL holds the tables \<open>documents\<close> and \<open>tags\<close> of \<open>init_database\<close>. The columns
  \<open>content\<close> and \<open>metadata\<close> may be NULL (\<open>None\<close>), as the handlers expect;
  \<open>mime_type\<close> and \<open>created_at\<close> are present in every row, as they are in every row
  \<open>create_document\<close> writes. The order of a list is the order of the table. The
  single connection \<open>db_conn\<close> has the committed tables and the tables as its open
  transaction sees them.
\<close>

record doc_row =
  row_id :: string
  row_filename :: string
  row_content :: "string option"
  row_mime_type :: string
  row_created_at :: nat
  row_metadata :: "ai_data option"

record tag_row =
  tag_doc_id :: string
  tag_tag :: string

record database =
  documents :: "doc_row list"
  tags :: "tag_row list"

record index_entry =
  ie_embedding :: "real list"
  ie_filename :: string
  ie_mime_type :: string
  ie_tags :: "string list"
  ie_document :: string

record cache_entry =
  ce_id :: string
  ce_filename :: string
  ce_tags :: "string list"
  ce_summary :: string

text \<open>Every call a handler makes to a service outside the process.\<close>

datatype call =
    PgInsertDocument | PgInsertTag | PgSelect | PgDelete | PgCommit | PgRollback
  | Encode | ChromaAdd | ChromaQuery | ChromaDelete | RedisSetex | RedisDelete

record world =
  committed :: database
  working :: database
  chroma :: "string \<rightharpoonup> index_entry"
  redis :: "string \<rightharpoonup> nat \<times> cache_entry"
  calls :: "call list"

text \<open>
  What a request meets outside the handler: the calls that raise (\<open>faults\<close>), the value of
  \<open>uuid.uuid4()\<close>, the clocks of the process and of the database, the embedding model, and
  the ranking (nearest first, with cosine distances) the vector index computes for a vector.
\<close>

record env =
  faults :: "call set"
  uuid4 :: string
  now :: nat
  current_timestamp :: nat
  encode :: "string \<Rightarrow> real list"
  ranking :: "(string \<rightharpoonup> index_entry) \<Rightarrow> real list \<Rightarrow> (string \<times> real) list"

section \<open>Exceptions\<close>

datatype py_exn =
    Failed call
  | UniqueViolation
  | ForeignKeyViolation
  | IndexError
  | ValidationError

text \<open>\<open>HTTPException(status_code, detail)\<close>; the detail ends with the text of the exception caught.\<close>

datatype http_error = HTTPException nat string py_exn

definition return :: "'a \<Rightarrow> world \<Rightarrow> (py_exn + 'a) \<times> world" where
  "return x w = (Inr x, w)"

definition raise :: "py_exn \<Rightarrow> world \<Rightarrow> (py_exn + 'a) \<times> world" where
  "raise e w = (Inl e, w)"

text \<open>Two statements in a row: the second runs when the first has not raised.\<close>

definition seq ::
  "(world \<Rightarrow> (py_exn + 'a) \<times> world) \<Rightarrow> ('a \<Rightarrow> world \<Rightarrow> (py_exn + 'b) \<times> world)
   \<Rightarrow> world \<Rightarrow> (py_exn + 'b) \<times> world" where
  "seq m f w = (case m w of (Inl e, w') \<Rightarrow> (Inl e, w') | (Inr x, w') \<Rightarrow> f x w')"

text \<open>\<open>try: body except Exception as e: handler\<close>, where the handler ends by raising.\<close>

definition try_except ::
  "(world \<Rightarrow> (py_exn + 'a) \<times> world) \<Rightarrow> (py_exn \<Rightarrow> world \<Rightarrow> http_error \<times> world)
   \<Rightarrow> world \<Rightarrow> (http_error + 'a) \<times> world" where
  "try_except body handler w =
     (case body w of
        (Inl e, w') \<Rightarrow> (case handler e w' of (h, w'') \<Rightarrow> (Inl h, w''))
      | (Inr x, w') \<Rightarrow> (Inr x, w'))"

text \<open>A call to a service is recorded, and raises when the environment says so.\<close>

definition invoke ::
  "env \<Rightarrow> call \<Rightarrow> (world \<Rightarrow> (py_exn + 'a) \<times> world) \<Rightarrow> world \<Rightarrow> (py_exn + 'a) \<times> world" where
  "invoke e c body w =
     (let w' = w\<lparr>calls := calls w @ [c]\<rparr>
      in if c \<in> faults e then (Inl (Failed c), w') else body w')"

section \<open>The services\<close>

subsection \<open>PostgreSQL\<close>

text \<open>
  \<open>INSERT INTO documents\<close>: the primary key rejects an id the table already has;
  \<open>created_at\<close> takes its default, the database's clock.
\<close>

definition pg_insert_document :: "env \<Rightarrow> doc_row \<Rightarrow> world \<Rightarrow> (py_exn + unit) \<times> world" where
  "pg_insert_document e r =
     invoke e PgInsertDocument (\<lambda>w.
       if row_id r \<in> set (map row_id (documents (working w))) then raise UniqueViolation w
       else return () (w\<lparr>working := (working w)\<lparr>documents := documents (working w) @ [r]\<rparr>\<rparr>))"

text \<open>\<open>INSERT INTO tags\<close>: \<open>doc_id\<close> references a document, and \<open>(doc_id, tag)\<close> is unique.\<close>

definition pg_insert_tag :: "env \<Rightarrow> string \<Rightarrow> string \<Rightarrow> world \<Rightarrow> (py_exn + unit) \<times> world" where
  "pg_insert_tag e i t =
     invoke e PgInsertTag (\<lambda>w.
       if i \<notin> set (map row_id (documents (working w))) then raise ForeignKeyViolation w
       else if \<lparr>tag_doc_id = i, tag_tag = t\<rparr> \<in> set (tags (working w)) then raise UniqueViolation w
       else return ()
         (w\<lparr>working := (working w)\<lparr>tags := tags (working w) @ [\<lparr>tag_doc_id = i, tag_tag = t\<rparr>]\<rparr>\<rparr>))"

text \<open>The loop \<open>for tag in ai_data["tags"]\<close>.\<close>

fun pg_insert_tags :: "env \<Rightarrow> string \<Rightarrow> string list \<Rightarrow> world \<Rightarrow> (py_exn + unit) \<times> world" where
  "pg_insert_tags e i [] = return ()"
| "pg_insert_tags e i (t # ts) = seq (pg_insert_tag e i t) (\<lambda>_. pg_insert_tags e i ts)"

definition pg_commit :: "env \<Rightarrow> world \<Rightarrow> (py_exn + unit) \<times> world" where
  "pg_commit e = invoke e PgCommit (\<lambda>w. return () (w\<lparr>committed := working w\<rparr>))"

text \<open>\<open>db_conn.rollback()\<close> drops what the open transaction has done; it is taken not to raise.\<close>

definition pg_rollback :: "world \<Rightarrow> world" where
  "pg_rollback w = w\<lparr>working := committed w, calls := calls w @ [PgRollback]\<rparr>"

text \<open>
  \<open>DELETE FROM documents WHERE id = %s\<close>, with the cascade to \<open>tags\<close>. The result is
  the number of rows deleted (\<open>cur.rowcount\<close>).
\<close>

definition pg_delete :: "env \<Rightarrow> string \<Rightarrow> world \<Rightarrow> (py_exn + nat) \<times> world" where
  "pg_delete e i =
     invoke e PgDelete (\<lambda>w.
       return (length (filter (\<lambda>r. row_id r = i) (documents (working w))))
         (w\<lparr>working := \<lparr>documents = filter (\<lambda>r. row_id r \<noteq> i) (documents (working w)),
                         tags = filter (\<lambda>t. tag_doc_id t \<noteq> i) (tags (working w))\<rparr>\<rparr>))"

text \<open>
  \<open>array_agg(t.tag)\<close> over the left join, grouped by document: the tags of the document's
  tag rows (in the order of the table; SQL fixes none), and a single NULL when it has none.
\<close>

definition array_agg :: "database \<Rightarrow> string \<Rightarrow> string option list" where
  "array_agg db i =
     (let ts = map tag_tag (filter (\<lambda>t. tag_doc_id t = i) (tags db))
      in if ts = [] then [None] else map Some ts)"

definition joined :: "database \<Rightarrow> doc_row list \<Rightarrow> (doc_row \<times> string option list) list" where
  "joined db rs = map (\<lambda>r. (r, array_agg db (row_id r))) rs"

text \<open>
  The query of \<open>get_documents\<close>, \<open>ORDER BY d.created_at DESC\<close>. Rows with equal
  \<open>created_at\<close> come in an order SQL does not fix.
\<close>

definition pg_select_all :: "env \<Rightarrow> world \<Rightarrow> (py_exn + (doc_row \<times> string option list) list) \<times> world" where
  "pg_select_all e =
     invoke e PgSelect (\<lambda>w.
       return (joined (working w) (rev (sort_key row_created_at (documents (working w))))) w)"

text \<open>
  The query of \<open>search_documents\<close>, \<open>WHERE d.id IN (...)\<close> with no \<open>ORDER BY\<close>: the
  rows whose id is in the list. SQL does not fix their order, and it is not the order of
  the list; here they come in the order of the table.
\<close>

definition pg_select_in :: "env \<Rightarrow> string list \<Rightarrow> world \<Rightarrow> (py_exn + (doc_row \<times> string option list) list) \<times> world" where
  "pg_select_in e ids =
     invoke e PgSelect (\<lambda>w.
       return (joined (working w) (filter (\<lambda>r. row_id r \<in> set ids) (documents (working w)))) w)"

subsection \<open>The embedding model, Chroma and Redis\<close>

definition model_encode :: "env \<Rightarrow> string \<Rightarrow> world \<Rightarrow> (py_exn + real list) \<times> world" where
  "model_encode e text = invoke e Encode (\<lambda>w. return (encode e text) w)"

text \<open>\<open>collection.add\<close>: an id the collection already has is left as it is.\<close>

definition chroma_add :: "env \<Rightarrow> string \<Rightarrow> index_entry \<Rightarrow> world \<Rightarrow> (py_exn + unit) \<times> world" where
  "chroma_add e i entry =
     invoke e ChromaAdd (\<lambda>w.
       return () (if chroma w i = None then w\<lparr>chroma := (chroma w)(i \<mapsto> entry)\<rparr> else w))"

text \<open>
  \<open>collection.query(n_results=5)\<close>: the first five of the ranking, as the list of ids
  and the list of distances.
\<close>

definition chroma_query :: "env \<Rightarrow> real list \<Rightarrow> world \<Rightarrow> (py_exn + string list \<times> real list) \<times> world" where
  "chroma_query e v =
     invoke e ChromaQuery (\<lambda>w.
       let top = take 5 (ranking e (chroma w) v) in return (map fst top, map snd top) w)"

definition chroma_delete :: "env \<Rightarrow> string \<Rightarrow> world \<Rightarrow> (py_exn + unit) \<times> world" where
  "chroma_delete e i = invoke e ChromaDelete (\<lambda>w. return () (w\<lparr>chroma := (chroma w)(i := None)\<rparr>))"

text \<open>\<open>setex(key, ttl, value)\<close>: the value is kept with its time to live, in seconds.\<close>

definition redis_setex :: "env \<Rightarrow> string \<Rightarrow> nat \<Rightarrow> cache_entry \<Rightarrow> world \<Rightarrow> (py_exn + unit) \<times> world" where
  "redis_setex e k ttl v = invoke e RedisSetex (\<lambda>w. return () (w\<lparr>redis := (redis w)(k \<mapsto> (ttl, v))\<rparr>))"

definition redis_delete :: "env \<Rightarrow> string \<Rightarrow> world \<Rightarrow> (py_exn + unit) \<times> world" where
  "redis_delete e k = invoke e RedisDelete (\<lambda>w. return () (w\<lparr>redis := (redis w)(k := None)\<rparr>))"

section \<open>The handlers\<close>

text \<open>
  \<open>row["tags"] if row["tags"][0] else []\<close>: the subscript raises on an empty list; a NULL
  and the empty string are both false.
\<close>

definition tags_or_empty :: "string option list \<Rightarrow> py_exn + string option list" where
  "tags_or_empty ts =
     (case ts of
        [] \<Rightarrow> Inl IndexError
      | None # _ \<Rightarrow> Inr []
      | Some t # _ \<Rightarrow> if t = [] then Inr [] else Inr ts)"

text \<open>
  The tags of a \<open>Document\<close> are strings: the model's constructor refuses a NULL among
  them.
\<close>

definition validate_tags :: "string option list \<Rightarrow> py_exn + string list" where
  "validate_tags ts = (case those ts of None \<Rightarrow> Inl ValidationError | Some xs \<Rightarrow> Inr xs)"

text \<open>\<open>x or y\<close> on a nullable column.\<close>

definition or_else :: "'a option \<Rightarrow> 'a \<Rightarrow> 'a" where
  "or_else x y = (case x of None \<Rightarrow> y | Some v \<Rightarrow> v)"

definition row_document :: "doc_row \<Rightarrow> string list \<Rightarrow> real option \<Rightarrow> Document" where
  "row_document r ts sim =
     \<lparr>doc_ident = row_id r, doc_filename = row_filename r, doc_content = or_else (row_content r) [],
      doc_mime_type = row_mime_type r, doc_created_at = row_created_at r, doc_tags = ts,
      doc_metadata = row_metadata r, doc_similarity = sim\<rparr>"

subsection \<open>\<open>GET /api/documents\<close>\<close>

fun list_rows :: "(doc_row \<times> string option list) list \<Rightarrow> py_exn + Document list" where
  "list_rows [] = Inr []"
| "list_rows ((r, ts) # rows) =
     (case tags_or_empty ts of
        Inl e \<Rightarrow> Inl e
      | Inr kept \<Rightarrow>
          (case validate_tags kept of
             Inl e \<Rightarrow> Inl e
           | Inr ts' \<Rightarrow>
               (case list_rows rows of
                  Inl e \<Rightarrow> Inl e
                | Inr ds \<Rightarrow> Inr (row_document r ts' None # ds))))"

text \<open>The handler has no \<open>try\<close>: an exception leaves it as it is.\<close>

definition get_documents :: "env \<Rightarrow> world \<Rightarrow> (py_exn + Document list) \<times> world" where
  "get_documents e = seq (pg_select_all e) (\<lambda>rows w. (list_rows rows, w))"

subsection \<open>\<open>POST /api/documents\<close>\<close>

definition create_document :: "env \<Rightarrow> DocumentCreate \<Rightarrow> world \<Rightarrow> (http_error + Document) \<times> world" where
  "create_document e document =
     (let doc_id = uuid4 e in
      try_except
        (let ai_data = generate_tags_and_summary (dc_content document) (dc_mimeType document) in
         seq (pg_insert_document e
                \<lparr>row_id = doc_id, row_filename = dc_filename document,
                 row_content = Some (dc_content document), row_mime_type = dc_mimeType document,
                 row_created_at = current_timestamp e, row_metadata = Some ai_data\<rparr>) (\<lambda>_.
         seq (pg_insert_tags e doc_id (ai_tags ai_data)) (\<lambda>_.
         seq (pg_commit e) (\<lambda>_.
         let text_to_embed =
               (if startswith (dc_mimeType document) ''text/'' then dc_content document
                else ai_summary ai_data) in
         seq (model_encode e text_to_embed) (\<lambda>embedding.
         seq (chroma_add e doc_id
                \<lparr>ie_embedding = embedding, ie_filename = dc_filename document,
                 ie_mime_type = dc_mimeType document, ie_tags = ai_tags ai_data,
                 ie_document = take 1000 text_to_embed\<rparr>) (\<lambda>_.
         seq (redis_setex e (''document:'' @ doc_id) 3600
                \<lparr>ce_id = doc_id, ce_filename = dc_filename document,
                 ce_tags = ai_tags ai_data, ce_summary = ai_summary ai_data\<rparr>) (\<lambda>_.
         return
           \<lparr>doc_ident = doc_id, doc_filename = dc_filename document,
            doc_content = dc_content document, doc_mime_type = dc_mimeType document,
            doc_created_at = now e, doc_tags = ai_tags ai_data,
            doc_metadata = Some ai_data, doc_similarity = None\<rparr>)))))))
        (\<lambda>ex w. (HTTPException 500 ''Failed to process document: '' ex, pg_rollback w)))"

subsection \<open>\<open>POST /api/search\<close>\<close>

text \<open>
  The loop \<open>for i, row in enumerate(rows)\<close>, from index \<open>i\<close> on: the row at position
  \<open>i\<close> of the query's answer takes \<open>similarities[i]\<close>, which raises past the end.
\<close>

fun search_rows :: "real list \<Rightarrow> nat \<Rightarrow> (doc_row \<times> string option list) list \<Rightarrow> py_exn + Document list" where
  "search_rows similarities i [] = Inr []"
| "search_rows similarities i ((r, ts) # rows) =
     (case tags_or_empty ts of
        Inl e \<Rightarrow> Inl e
      | Inr kept \<Rightarrow>
          if i < length similarities then
            (case validate_tags kept of
               Inl e \<Rightarrow> Inl e
             | Inr ts' \<Rightarrow>
                 (case search_rows similarities (Suc i) rows of
                    Inl e \<Rightarrow> Inl e
                  | Inr ds \<Rightarrow> Inr (row_document r ts' (Some (similarities ! i)) # ds)))
          else Inl IndexError)"

definition search_documents :: "env \<Rightarrow> SearchQuery \<Rightarrow> world \<Rightarrow> (http_error + Document list) \<times> world" where
  "search_documents e query =
     try_except
       (seq (model_encode e (sq_query query)) (\<lambda>query_embedding.
        seq (chroma_query e query_embedding) (\<lambda>(ids, distances).
        if ids = [] then return []
        else
          (let doc_ids = ids;
               similarities = map (\<lambda>distance. 1 - distance) distances in
           seq (pg_select_in e doc_ids) (\<lambda>rows w. (search_rows similarities 0 rows, w))))))
       (\<lambda>ex w. (HTTPException 500 ''Search failed: '' ex, w))"

subsection \<open>\<open>DELETE /api/documents/{doc_id}\<close>\<close>

definition delete_document :: "env \<Rightarrow> string \<Rightarrow> world \<Rightarrow> (http_error + DeleteResponse) \<times> world" where
  "delete_document e doc_id =
     try_except
       (seq (pg_delete e doc_id) (\<lambda>_.
        seq (pg_commit e) (\<lambda>_.
        seq (chroma_delete e doc_id) (\<lambda>_.
        seq (redis_delete e (''document:'' @ doc_id)) (\<lambda>_.
        return \<lparr>success = True\<rparr>)))))
       (\<lambda>ex w. (HTTPException 500 ''Failed to delete document: '' ex, pg_rollback w))"

section \<open>Orders of calls, and example states\<close>

text \<open>In the list of calls, a call \<open>a\<close> is followed, somewhere after its first occurrence, by \<open>b\<close>.\<close>

definition precedes :: "call \<Rightarrow> call \<Rightarrow> call list \<Rightarrow> bool" where
  "precedes a b cs = (b \<in> set (dropWhile (\<lambda>c. c \<noteq> a) cs))"

definition empty_database :: database where
  "empty_database = \<lparr>documents = [], tags = []\<rparr>"

definition empty_world :: world where
  "empty_world =
     \<lparr>committed = empty_database, working = empty_database,
      chroma = Map.empty, redis = Map.empty, calls = []\<rparr>"

text \<open>An environment in which no call raises.\<close>

definition quiet_env :: env where
  "quiet_env =
     \<lparr>faults = {}, uuid4 = ''u1'', now = 10, current_timestamp = 9,
      encode = (\<lambda>_. [1, 0]), ranking = (\<lambda>_ _. [])\<rparr>"

definition hello :: DocumentCreate where
  "hello = \<lparr>dc_filename = ''a.txt'', dc_content = ''hello world'', dc_mimeType = ''text/plain''\<rparr>"

text \<open>The stores after \<open>hello\<close> has been created in the empty stores.\<close>

definition one_document_world :: world where
  "one_document_world = snd (create_document quiet_env hello empty_world)"

text \<open>
  Two documents, \<open>a\<close> stored before \<open>b\<close>, both in the Vector Index; \<open>a\<close> has one tag
  row and \<open>b\<close> has none.
\<close>

definition row_a :: doc_row where
  "row_a =
     \<lparr>row_id = ''a'', row_filename = ''a.txt'', row_content = Some ''hello world'',
      row_mime_type = ''text/plain'', row_created_at = 9,
      row_metadata = Some \<lparr>ai_tags = [''hello'', ''world''], ai_summary = ''hello world''\<rparr>\<rparr>"

definition row_b :: doc_row where
  "row_b =
     \<lparr>row_id = ''b'', row_filename = ''b.txt'', row_content = Some ''hello there'',
      row_mime_type = ''text/plain'', row_created_at = 12,
      row_metadata = Some \<lparr>ai_tags = [''hello'', ''there''], ai_summary = ''hello there''\<rparr>\<rparr>"

definition entry_of :: "doc_row \<Rightarrow> index_entry" where
  "entry_of r =
     \<lparr>ie_embedding = [1, 0], ie_filename = row_filename r, ie_mime_type = row_mime_type r,
      ie_tags = [], ie_document = or_else (row_content r) []\<rparr>"

definition two_document_world :: world where
  "two_document_world =
     \<lparr>committed = \<lparr>documents = [row_a, row_b], tags = [\<lparr>tag_doc_id = ''a'', tag_tag = ''hello''\<rparr>]\<rparr>,
      working = \<lparr>documents = [row_a, row_b], tags = [\<lparr>tag_doc_id = ''a'', tag_tag = ''hello''\<rparr>]\<rparr>,
      chroma = [''a'' \<mapsto> entry_of row_a, ''b'' \<mapsto> entry_of row_b],
      redis = Map.empty, calls = []\<rparr>"

text \<open>
  The same stores after \<open>b\<close> has left the Document Store and not the Vector Index, as a
  delete of \<open>b\<close> leaves them when the Vector Index delete raises.
\<close>

definition stale_index_world :: world where
  "stale_index_world =
     \<lparr>committed = \<lparr>documents = [row_a], tags = [\<lparr>tag_doc_id = ''a'', tag_tag = ''hello''\<rparr>]\<rparr>,
      working = \<lparr>documents = [row_a], tags = [\<lparr>tag_doc_id = ''a'', tag_tag = ''hello''\<rparr>]\<rparr>,
      chroma = [''a'' \<mapsto> entry_of row_a, ''b'' \<mapsto> entry_of row_b],
      redis = Map.empty, calls = []\<rparr>"

text \<open>
  A Vector Index that ranks \<open>b\<close> (distance 1/4) before \<open>a\<close> (distance 1/2), among the
  entries it holds; and one that finds \<open>a\<close> at distance 3/2.
\<close>

definition ranked_env :: env where
  "ranked_env =
     quiet_env\<lparr>ranking :=
       (\<lambda>index _. filter (\<lambda>(i, d). index i \<noteq> None) [(''b'', 1 / 4), (''a'', 1 / 2)])\<rparr>"

definition far_env :: env where
  "far_env = quiet_env\<lparr>ranking := (\<lambda>_ _. [(''a'', 3 / 2)])\<rparr>"

section \<open>The tags the annotator returns are distinct\<close>

lemma upper_char_not_lower:
  "\<not> (97 \<le> (of_char (upper_char c) :: nat) \<and> (of_char (upper_char c) :: nat) \<le> 122)"
  by (auto simp: upper_char_def Let_def)

lemma upper_ne_media: "upper s \<noteq> ''media''"
proof
  assume "upper s = ''media''"
  then obtain c where "upper_char c = CHR ''m''"
    by (cases s) (auto simp: upper_def)
  with upper_char_not_lower [of c] show False by simp
qed

lemma upper_ne_file: "upper s \<noteq> ''file''"
proof
  assume "upper s = ''file''"
  then obtain c where "upper_char c = CHR ''f''"
    by (cases s) (auto simp: upper_def)
  with upper_char_not_lower [of c] show False by simp
qed

lemma distinct_tags: "distinct (ai_tags (generate_tags_and_summary c m))"
  by (simp add: generate_tags_and_summary_def Let_def upper_ne_media upper_ne_file)

section \<open>The loop that stores the tags\<close>

lemma pg_insert_tags_ok:
  assumes "PgInsertTag \<notin> faults e"
      and "i \<in> set (map row_id (documents (working w)))"
      and "distinct ts"
      and "\<forall>t \<in> set ts. \<lparr>tag_doc_id = i, tag_tag = t\<rparr> \<notin> set (tags (working w))"
  shows "pg_insert_tags e i ts w =
           (Inr (),
            w\<lparr>working := (working w)
                 \<lparr>tags := tags (working w) @ map (\<lambda>t. \<lparr>tag_doc_id = i, tag_tag = t\<rparr>) ts\<rparr>,
              calls := calls w @ replicate (length ts) PgInsertTag\<rparr>)"
  using assms
proof (induction ts arbitrary: w)
  case Nil
  then show ?case by (simp add: return_def)
next
  case (Cons t ts)
  let ?w1 = "w\<lparr>calls := calls w @ [PgInsertTag],
               working := (working w)\<lparr>tags := tags (working w) @ [\<lparr>tag_doc_id = i, tag_tag = t\<rparr>]\<rparr>\<rparr>"
  have step: "pg_insert_tag e i t w = (Inr (), ?w1)"
    using Cons.prems by (simp add: pg_insert_tag_def invoke_def return_def raise_def Let_def)
  have rest: "pg_insert_tags e i ts ?w1 =
           (Inr (),
            ?w1\<lparr>working := (working ?w1)
                   \<lparr>tags := tags (working ?w1) @ map (\<lambda>t. \<lparr>tag_doc_id = i, tag_tag = t\<rparr>) ts\<rparr>,
                calls := calls ?w1 @ replicate (length ts) PgInsertTag\<rparr>)"
    using Cons.prems by (intro Cons.IH) auto
  show ?case
    by (simp add: seq_def step rest replicate_append_same)
qed

lemma pg_insert_tags_fresh:
  assumes "PgInsertTag \<notin> faults e"
      and "i \<in> set (map row_id (documents (working w)))"
      and "distinct ts"
      and "i \<notin> set (map tag_doc_id (tags (working w)))"
  shows "pg_insert_tags e i ts w =
           (Inr (),
            w\<lparr>working := (working w)
                 \<lparr>tags := tags (working w) @ map (\<lambda>t. \<lparr>tag_doc_id = i, tag_tag = t\<rparr>) ts\<rparr>,
              calls := calls w @ replicate (length ts) PgInsertTag\<rparr>)"
proof (rule pg_insert_tags_ok [OF assms(1) assms(2) assms(3)])
  show "\<forall>t\<in>set ts. \<lparr>tag_doc_id = i, tag_tag = t\<rparr> \<notin> set (tags (working w))"
    using assms(4) by force
qed

lemmas create_defs = create_document_def Let_def pg_insert_document_def pg_commit_def
  pg_rollback_def model_encode_def chroma_add_def redis_setex_def invoke_def seq_def
  try_except_def return_def raise_def pg_insert_tags_fresh distinct_tags

lemmas delete_defs = delete_document_def Let_def pg_delete_def pg_commit_def pg_rollback_def
  chroma_delete_def redis_delete_def invoke_def seq_def try_except_def return_def raise_def

section \<open>What the queries answer\<close>

lemma those_map_Some: "those (map Some xs) = Some xs"
  by (induction xs) simp_all

lemma validate_tags_Some: "validate_tags (map Some xs) = Inr xs"
  by (simp add: validate_tags_def those_map_Some)

lemma tags_or_empty_array_agg:
  "tags_or_empty (array_agg db i) =
     Inr (map Some
       (let ts = map tag_tag (filter (\<lambda>t. tag_doc_id t = i) (tags db))
        in if ts = [] \<or> hd ts = [] then [] else ts))"
proof (cases "map tag_tag (filter (\<lambda>t. tag_doc_id t = i) (tags db))")
  case Nil
  then show ?thesis by (simp add: tags_or_empty_def array_agg_def)
next
  case (Cons t ts)
  then show ?thesis
    by (simp add: tags_or_empty_def array_agg_def Let_def)
qed

lemma list_rows_joined:
  "list_rows (joined db rs) =
     Inr (map (\<lambda>r. row_document r
                 (let ts = map tag_tag (filter (\<lambda>t. tag_doc_id t = row_id r) (tags db))
                  in if ts = [] \<or> hd ts = [] then [] else ts) None) rs)"
  by (induction rs) (simp_all add: joined_def tags_or_empty_array_agg validate_tags_Some)

text \<open>The similarities of the documents returned are the first ones of the list, in order.\<close>

lemma search_rows_similarities:
  "search_rows sims i rows = Inr docs \<Longrightarrow>
     map doc_similarity docs = map Some (take (length docs) (drop i sims))"
proof (induction rows arbitrary: i docs)
  case Nil
  then show ?case by simp
next
  case (Cons row rows)
  obtain r ts where row: "row = (r, ts)" by (cases row)
  from Cons.prems row obtain ts' ds where
    i: "i < length sims" and rest: "search_rows sims (Suc i) rows = Inr ds"
    and docs: "docs = row_document r ts' (Some (sims ! i)) # ds"
    by (auto split: sum.splits if_splits)
  from Cons.IH [OF rest]
  have "map doc_similarity ds = map Some (take (length ds) (drop (Suc i) sims))" .
  moreover from i have "drop i sims = sims ! i # drop (Suc i) sims"
    by (simp add: Cons_nth_drop_Suc)
  ultimately show ?case using docs by (simp add: row_document_def)
qed

lemma search_documents_similarities:
  assumes "fst (search_documents e q w) = Inr docs"
  shows "map doc_similarity docs =
           map Some (take (length docs)
             (map (\<lambda>distance. 1 - distance)
                (map snd (take 5 (ranking e (chroma w) (encode e (sq_query q)))))))"
  using assms search_rows_similarities [of _ 0 _ docs]
  by (auto simp add: search_documents_def model_encode_def chroma_query_def pg_select_in_def
        invoke_def seq_def try_except_def return_def Let_def
        split: if_splits sum.splits prod.splits)

text \<open>
  The similarity values alone, read along the documents returned, do not increase when the
  Vector Index answers its distances in ascending order.
\<close>

lemma search_documents_values_descending:
  assumes "sorted (map snd (take 5 (ranking e (chroma w) (encode e (sq_query q)))))"
      and "fst (search_documents e q w) = Inr docs"
  shows "sorted_wrt (\<lambda>x y. x \<ge> y) (map (the \<circ> doc_similarity) docs)"
proof -
  let ?ds = "map snd (take 5 (ranking e (chroma w) (encode e (sq_query q))))"
  have "map (the \<circ> doc_similarity) docs = map the (map doc_similarity docs)" by simp
  also have "\<dots> = take (length docs) (map (\<lambda>distance. 1 - distance) ?ds)"
    unfolding search_documents_similarities [OF assms(2)] by (simp add: comp_def)
  finally have eq: "map (the \<circ> doc_similarity) docs
                      = take (length docs) (map (\<lambda>distance. 1 - distance) ?ds)" .
  from assms(1) have "sorted_wrt (\<lambda>x y. x \<ge> y) (map (\<lambda>distance. 1 - distance) ?ds)"
    by (simp add: sorted_wrt_map sorted_wrt_iff_nth_less sorted_iff_nth_mono)
  then show ?thesis unfolding eq by (rule sorted_wrt_take)
qed

section \<open>How the example states arise\<close>

text \<open>
  A delete of \<open>b\<close> in which the Vector Index delete raises turns \<open>two_document_world\<close>
  into \<open>stale_index_world\<close>: the row is gone and committed, the index entry is still there.
\<close>

lemma stale_index_world_reached:
  "committed (snd (delete_document (quiet_env\<lparr>faults := {ChromaDelete}\<rparr>) ''b'' two_document_world))
     = committed stale_index_world
   \<and> working (snd (delete_document (quiet_env\<lparr>faults := {ChromaDelete}\<rparr>) ''b'' two_document_world))
     = working stale_index_world
   \<and> chroma (snd (delete_document (quiet_env\<lparr>faults := {ChromaDelete}\<rparr>) ''b'' two_document_world))
     = chroma stale_index_world"
  by (simp add: delete_defs quiet_env_def two_document_world_def stale_index_world_def
        row_a_def row_b_def)

section \<open>Properties of the annotator\<close>

text \<open>
  C10. For every content and media type, \<open>generate_tags_and_summary\<close> returns between one
  and five tags; for a textual media type the summary is the content when the content has at
  most 200 characters, and otherwise its first 200 characters followed by three dots, so it
  never has more than 203 characters.
\<close>

theorem generate_tags_and_summary_shape:
  "ai_tags (generate_tags_and_summary content mime_type) \<noteq> []
   \<and> length (ai_tags (generate_tags_and_summary content mime_type)) \<le> 5
   \<and> (is_textual mime_type \<longrightarrow>
        ai_summary (generate_tags_and_summary content mime_type)
          = (if length content \<le> 200 then content else take 200 content @ ''...'')
      \<and> length (ai_summary (generate_tags_and_summary content mime_type)) \<le> 203)"
  by (simp add: generate_tags_and_summary_def Let_def)

theorem generate_tags_and_summary_shape_witness:
  "is_textual ''text/plain''
   \<and> ai_tags (generate_tags_and_summary ''hello world'' ''text/plain'') \<noteq> []
   \<and> length (ai_tags (generate_tags_and_summary ''hello world'' ''text/plain'')) \<le> 5
   \<and> ai_summary (generate_tags_and_summary ''hello world'' ''text/plain'') = ''hello world''
   \<and> length (ai_summary (generate_tags_and_summary ''hello world'' ''text/plain'')) \<le> 203"
  using generate_tags_and_summary_shape [of "''hello world''" "''text/plain''"]
  by (simp add: is_textual_def startswith_def)

section \<open>Properties of \<open>create_document\<close>\<close>

text \<open>
  C3, as the claim states it, fails: with the embedding model raising after the commit,
  the row of the document is committed and stays, and the caller gets a 500, not the
  Document.
\<close>

theorem create_document_degraded_counterexample:
  "map row_id (documents (committed (snd (create_document (quiet_env\<lparr>faults := {Encode}\<rparr>) hello empty_world))))
     = [''u1'']
   \<and> fst (create_document (quiet_env\<lparr>faults := {Encode}\<rparr>) hello empty_world)
     = Inl (HTTPException 500 ''Failed to process document: '' (Failed Encode))"
  by code_simp

text \<open>
  C3, amended. For every create in which the embedding or the vector-index step raises
  after the Document Store commit (the id is new to the store and no PostgreSQL call
  raises), the committed row is not rolled back: the committed Document Store contains the
  document. The caller gets an HTTP 500 error that names the failed step, and no Document.
\<close>

theorem create_document_index_failure:
  assumes "uuid4 e \<notin> set (map row_id (documents (working w)))"
      and "uuid4 e \<notin> set (map tag_doc_id (tags (working w)))"
      and "PgInsertDocument \<notin> faults e" and "PgInsertTag \<notin> faults e" and "PgCommit \<notin> faults e"
      and "Encode \<in> faults e \<or> ChromaAdd \<in> faults e"
  shows "uuid4 e \<in> set (map row_id (documents (committed (snd (create_document e document w)))))
         \<and> fst (create_document e document w) =
             Inl (HTTPException 500 ''Failed to process document: ''
                    (Failed (if Encode \<in> faults e then Encode else ChromaAdd)))"
  using assms by (auto simp add: create_defs)

theorem create_document_index_failure_witness:
  "uuid4 (quiet_env\<lparr>faults := {ChromaAdd}\<rparr>) \<notin> set (map row_id (documents (working empty_world)))
   \<and> uuid4 (quiet_env\<lparr>faults := {ChromaAdd}\<rparr>) \<notin> set (map tag_doc_id (tags (working empty_world)))
   \<and> PgInsertDocument \<notin> faults (quiet_env\<lparr>faults := {ChromaAdd}\<rparr>)
   \<and> PgInsertTag \<notin> faults (quiet_env\<lparr>faults := {ChromaAdd}\<rparr>)
   \<and> PgCommit \<notin> faults (quiet_env\<lparr>faults := {ChromaAdd}\<rparr>)
   \<and> (Encode \<in> faults (quiet_env\<lparr>faults := {ChromaAdd}\<rparr>)
        \<or> ChromaAdd \<in> faults (quiet_env\<lparr>faults := {ChromaAdd}\<rparr>))
   \<and> ''u1'' \<in> set (map row_id (documents (committed
          (snd (create_document (quiet_env\<lparr>faults := {ChromaAdd}\<rparr>) hello empty_world)))))
   \<and> fst (create_document (quiet_env\<lparr>faults := {ChromaAdd}\<rparr>) hello empty_world)
       = Inl (HTTPException 500 ''Failed to process document: '' (Failed ChromaAdd))"
  using create_document_index_failure
          [of "quiet_env\<lparr>faults := {ChromaAdd}\<rparr>" empty_world hello]
  by (simp add: quiet_env_def empty_world_def empty_database_def)




text \<open>
  C7, as the claim states it, fails: with the Result Cache raising, the create ends in a
  500 and returns no Document.
\<close>

theorem create_document_cache_counterexample:
  "fst (create_document (quiet_env\<lparr>faults := {RedisSetex}\<rparr>) hello empty_world)
     = Inl (HTTPException 500 ''Failed to process document: '' (Failed RedisSetex))"
  by code_simp

text \<open>
  C7, amended. For every create that reaches the Result Cache step (the id is new to the
  store and no earlier call raises), a failure of that step surfaces to the caller as an
  HTTP 500 error and no Document is returned; the document stays in the committed Document
  Store and in the Vector Index, and the Result Cache is left as it was.
\<close>

theorem create_document_cache_failure:
  assumes "uuid4 e \<notin> set (map row_id (documents (working w)))"
      and "uuid4 e \<notin> set (map tag_doc_id (tags (working w)))"
      and "PgInsertDocument \<notin> faults e" and "PgInsertTag \<notin> faults e" and "PgCommit \<notin> faults e"
      and "Encode \<notin> faults e" and "ChromaAdd \<notin> faults e"
      and "RedisSetex \<in> faults e"
  shows "fst (create_document e document w) =
             Inl (HTTPException 500 ''Failed to process document: '' (Failed RedisSetex))
         \<and> uuid4 e \<in> set (map row_id (documents (committed (snd (create_document e document w)))))
         \<and> chroma (snd (create_document e document w)) (uuid4 e) \<noteq> None
         \<and> redis (snd (create_document e document w)) = redis w"
  using assms by (auto simp add: create_defs)

theorem create_document_cache_failure_witness:
  "uuid4 (quiet_env\<lparr>faults := {RedisSetex}, uuid4 := ''u2''\<rparr>)
        \<notin> set (map row_id (documents (working one_document_world)))
   \<and> uuid4 (quiet_env\<lparr>faults := {RedisSetex}, uuid4 := ''u2''\<rparr>)
        \<notin> set (map tag_doc_id (tags (working one_document_world)))
   \<and> RedisSetex \<in> faults (quiet_env\<lparr>faults := {RedisSetex}, uuid4 := ''u2''\<rparr>)
   \<and> fst (create_document (quiet_env\<lparr>faults := {RedisSetex}, uuid4 := ''u2''\<rparr>) hello one_document_world)
       = Inl (HTTPException 500 ''Failed to process document: '' (Failed RedisSetex))
   \<and> ''u2'' \<in> set (map row_id (documents (committed
         (snd (create_document (quiet_env\<lparr>faults := {RedisSetex}, uuid4 := ''u2''\<rparr>) hello one_document_world)))))"
proof -
  let ?e = "quiet_env\<lparr>faults := {RedisSetex}, uuid4 := ''u2''\<rparr>"
  have h1: "uuid4 ?e \<notin> set (map row_id (documents (working one_document_world)))"
    by code_simp
  have h2: "uuid4 ?e \<notin> set (map tag_doc_id (tags (working one_document_world)))"
    by code_simp
  have h3: "PgInsertDocument \<notin> faults ?e" "PgInsertTag \<notin> faults ?e" "PgCommit \<notin> faults ?e"
    "Encode \<notin> faults ?e" "ChromaAdd \<notin> faults ?e" "RedisSetex \<in> faults ?e"
    by (simp_all add: quiet_env_def)
  from create_document_cache_failure [OF h1 h2 h3, of hello] h1 h2 h3(6)
  show ?thesis by simp
qed

section \<open>Properties of \<open>delete_document\<close>\<close>

text \<open>
  C4, as the claim states it, fails: the delete of an id the Document Store does not have
  deletes zero rows and reports success.
\<close>

theorem delete_document_missing_counterexample:
  "fst (pg_delete quiet_env ''missing'' one_document_world) = Inr 0
   \<and> fst (delete_document quiet_env ''missing'' one_document_world) = Inr \<lparr>success = True\<rparr>"
  by code_simp

text \<open>
  C4, amended. For every delete of an id for which the Document Store delete affects zero
  rows, the operation reports success (\<open>{success: true}\<close>) unless the commit, the Vector
  Index delete or the Result Cache delete raises, and then it reports an HTTP 500 error; it
  never reports NotFound.
\<close>

theorem delete_document_missing:
  assumes "fst (pg_delete e doc_id w) = Inr 0"
  shows "fst (delete_document e doc_id w) =
     (if PgCommit \<in> faults e
        then Inl (HTTPException 500 ''Failed to delete document: '' (Failed PgCommit))
      else if ChromaDelete \<in> faults e
        then Inl (HTTPException 500 ''Failed to delete document: '' (Failed ChromaDelete))
      else if RedisDelete \<in> faults e
        then Inl (HTTPException 500 ''Failed to delete document: '' (Failed RedisDelete))
      else Inr \<lparr>success = True\<rparr>)"
  using assms by (simp add: delete_defs split: if_splits)

theorem delete_document_missing_witness:
  "fst (pg_delete quiet_env ''u1'' empty_world) = Inr 0
   \<and> fst (delete_document quiet_env ''u1'' empty_world) = Inr \<lparr>success = True\<rparr>"
proof -
  have h: "fst (pg_delete quiet_env ''u1'' empty_world) = Inr 0"
    by code_simp
  from delete_document_missing [OF h] h show ?thesis
    by (simp add: quiet_env_def)
qed

text \<open>
  C5, as the claim states it, fails: on a document held by all three stores, the delete
  does not call the Vector Index before the Result Cache before the Document Store.
\<close>

theorem delete_document_order_counterexample:
  "\<not> (precedes ChromaDelete RedisDelete (calls (snd (delete_document quiet_env ''u1'' one_document_world)))
      \<and> precedes RedisDelete PgDelete (calls (snd (delete_document quiet_env ''u1'' one_document_world))))"
  by code_simp

text \<open>
  C5, amended. For every delete, the sub-deletes are executed in the order: Document Store
  first (the delete, then the commit), then Vector Index, then Result Cache last; a call
  that raises ends the sequence, and a rollback follows it.
\<close>

theorem delete_document_order:
  "calls (snd (delete_document e doc_id w)) = calls w @
     (if PgDelete \<in> faults e then [PgDelete, PgRollback]
      else if PgCommit \<in> faults e then [PgDelete, PgCommit, PgRollback]
      else if ChromaDelete \<in> faults e then [PgDelete, PgCommit, ChromaDelete, PgRollback]
      else if RedisDelete \<in> faults e then [PgDelete, PgCommit, ChromaDelete, RedisDelete, PgRollback]
      else [PgDelete, PgCommit, ChromaDelete, RedisDelete])"
  by (simp add: delete_defs)

theorem delete_document_order_witness:
  "calls (snd (delete_document quiet_env ''u1'' empty_world))
     = [PgDelete, PgCommit, ChromaDelete, RedisDelete]
   \<and> precedes PgDelete ChromaDelete (calls (snd (delete_document quiet_env ''u1'' empty_world)))
   \<and> precedes ChromaDelete RedisDelete (calls (snd (delete_document quiet_env ''u1'' empty_world)))"
  using delete_document_order [of quiet_env "''u1''" empty_world]
  by (simp add: quiet_env_def empty_world_def precedes_def)

section \<open>Properties of \<open>get_documents\<close>\<close>

text \<open>
  C9. For every state of the Document Store, when the query does not raise, the listing
  endpoint returns the documents of the store, ordered newest first, and a document with no
  tag rows is returned with the empty sequence of tags.
\<close>

theorem get_documents_newest_first:
  assumes "PgSelect \<notin> faults e"
  shows "\<exists>docs. fst (get_documents e w) = Inr docs
           \<and> mset (map doc_ident docs) = mset (map row_id (documents (working w)))
           \<and> sorted_wrt (\<lambda>a b. doc_created_at a \<ge> doc_created_at b) docs
           \<and> (\<forall>d \<in> set docs.
                 doc_ident d \<notin> set (map tag_doc_id (tags (working w))) \<longrightarrow> doc_tags d = [])"
proof -
  let ?rs = "rev (sort_key row_created_at (documents (working w)))"
  let ?shown = "\<lambda>r. let ts = map tag_tag (filter (\<lambda>t. tag_doc_id t = row_id r) (tags (working w)))
                    in if ts = [] \<or> hd ts = [] then [] else ts"
  let ?docs = "map (\<lambda>r. row_document r (?shown r) None) ?rs"
  have run: "fst (get_documents e w) = Inr ?docs"
    using assms
    by (simp add: get_documents_def pg_select_all_def invoke_def seq_def return_def Let_def
          list_rows_joined)
  have ids: "map doc_ident ?docs = map row_id ?rs"
    by (simp add: row_document_def comp_def)
  have perm: "mset (map doc_ident ?docs) = mset (map row_id (documents (working w)))"
    unfolding ids by simp
  have times: "map doc_created_at ?docs
                 = rev (map row_created_at (sort_key row_created_at (documents (working w))))"
    by (simp add: row_document_def comp_def rev_map)
  have "sorted (map row_created_at (sort_key row_created_at (documents (working w))))"
    by (rule sorted_sort_key)
  then have "sorted_wrt (\<lambda>a b. a \<ge> b) (map doc_created_at ?docs)"
    unfolding times by (simp add: sorted_wrt_rev)
  then have ord: "sorted_wrt (\<lambda>a b. doc_created_at a \<ge> doc_created_at b) ?docs"
    by (simp only: sorted_wrt_map)
  have notags: "\<forall>d \<in> set ?docs.
      doc_ident d \<notin> set (map tag_doc_id (tags (working w))) \<longrightarrow> doc_tags d = []"
  proof (intro ballI impI)
    fix d
    assume d: "d \<in> set ?docs"
      and none: "doc_ident d \<notin> set (map tag_doc_id (tags (working w)))"
    from d obtain r where r: "d = row_document r (?shown r) None" by auto
    from none r have "row_id r \<notin> tag_doc_id ` set (tags (working w))"
      by (simp add: row_document_def)
    then have "filter (\<lambda>t. tag_doc_id t = row_id r) (tags (working w)) = []"
      by (force simp: filter_empty_conv)
    with r show "doc_tags d = []"
      by (simp add: row_document_def)
  qed
  from run perm ord notags show ?thesis by blast
qed

theorem get_documents_newest_first_witness:
  "PgSelect \<notin> faults quiet_env
   \<and> fst (get_documents quiet_env two_document_world)
       = Inr [row_document row_b [] None, row_document row_a [''hello''] None]
   \<and> sorted_wrt (\<lambda>a b. doc_created_at a \<ge> doc_created_at b)
         [row_document row_b [] None, row_document row_a [''hello''] None]
   \<and> ''b'' \<notin> set (map tag_doc_id (tags (working two_document_world)))
   \<and> doc_tags (row_document row_b [] None) = []"
proof -
  have h: "PgSelect \<notin> faults quiet_env"
    by (simp add: quiet_env_def)
  have run: "fst (get_documents quiet_env two_document_world)
       = Inr [row_document row_b [] None, row_document row_a [''hello''] None]"
    by code_simp
  have nb: "''b'' \<notin> set (map tag_doc_id (tags (working two_document_world)))"
    by code_simp
  from get_documents_newest_first [OF h, of two_document_world]
  obtain docs where d: "fst (get_documents quiet_env two_document_world) = Inr docs"
    and ord: "sorted_wrt (\<lambda>a b. doc_created_at a \<ge> doc_created_at b) docs"
    and nt: "\<forall>d \<in> set docs.
               doc_ident d \<notin> set (map tag_doc_id (tags (working two_document_world)))
               \<longrightarrow> doc_tags d = []"
    by blast
  from d run have eq: "docs = [row_document row_b [] None, row_document row_a [''hello''] None]"
    by simp
  from nt eq nb have "doc_tags (row_document row_b [] None) = []"
    by (simp add: row_document_def row_b_def)
  with h run ord eq nb show ?thesis by simp
qed

section \<open>Properties of \<open>search_documents\<close>\<close>

text \<open>
  C1. The claim does not hold of the code. In \<open>stale_index_world\<close> the Vector Index
  answers \<open>b\<close> at distance 1/4 and \<open>a\<close> at distance 1/2; the Document Store has only
  \<open>a\<close>, and \<open>a\<close> is returned with the similarity 3/4 computed for \<open>b\<close>, not its own 1/2.
\<close>

theorem search_documents_similarity_of_other_id:
  "take 5 (ranking ranked_env (chroma stale_index_world) (encode ranked_env ''hello''))
     = [(''b'', 1 / 4), (''a'', 1 / 2)]
   \<and> map_sum id (map (\<lambda>d. (doc_ident d, doc_similarity d)))
        (fst (search_documents ranked_env \<lparr>sq_query = ''hello''\<rparr> stale_index_world))
     = Inr [(''a'', Some (3 / 4))]"
  by code_simp

text \<open>
  C2. The claim does not hold of the code. In \<open>two_document_world\<close> the Vector Index
  ranks \<open>b\<close> before \<open>a\<close>, and the documents are returned in the order of the Document
  Store's answer, \<open>a\<close> before \<open>b\<close>.
\<close>

theorem search_documents_not_in_rank_order:
  "map fst (take 5 (ranking ranked_env (chroma two_document_world) (encode ranked_env ''hello'')))
     = [''b'', ''a'']
   \<and> map_sum id (map doc_ident)
        (fst (search_documents ranked_env \<lparr>sq_query = ''hello''\<rparr> two_document_world))
     = Inr [''a'', ''b'']"
  by code_simp

text \<open>
  C8, as the claim states it, fails: at the cosine distance 3/2 the similarity attached is
  -1/2, which is not in the range from 0 to 2.
\<close>

theorem search_documents_range_counterexample:
  "take 5 (ranking far_env (chroma two_document_world) (encode far_env ''hello'')) = [(''a'', 3 / 2)]
   \<and> map_sum id (map (\<lambda>d. (doc_ident d, doc_similarity d)))
        (fst (search_documents far_env \<lparr>sq_query = ''hello''\<rparr> two_document_world))
     = Inr [(''a'', Some (- (1 / 2)))]"
  by code_simp

text \<open>
  C8, amended. Whenever the cosine distances the Vector Index answers lie in the range
  from 0 to 2, every similarity value attached to a search result lies in the range from
  -1 to 1.
\<close>

theorem search_documents_range:
  assumes "\<forall>p \<in> set (take 5 (ranking e (chroma w) (encode e (sq_query q)))). 0 \<le> snd p \<and> snd p \<le> 2"
      and "fst (search_documents e q w) = Inr docs"
  shows "\<forall>d \<in> set docs. \<exists>s. doc_similarity d = Some s \<and> - 1 \<le> s \<and> s \<le> 1"
proof
  fix d
  assume "d \<in> set docs"
  then have "doc_similarity d \<in> set (map doc_similarity docs)" by simp
  also have "\<dots> \<subseteq> Some ` (\<lambda>distance. 1 - distance) ` snd `
                      set (take 5 (ranking e (chroma w) (encode e (sq_query q))))"
    unfolding search_documents_similarities [OF assms(2)]
    using set_take_subset by fastforce
  finally obtain p where p: "p \<in> set (take 5 (ranking e (chroma w) (encode e (sq_query q))))"
    and s: "doc_similarity d = Some (1 - snd p)" by auto
  from assms(1) p have "0 \<le> snd p \<and> snd p \<le> 2" by blast
  with s show "\<exists>s. doc_similarity d = Some s \<and> - 1 \<le> s \<and> s \<le> 1" by simp
qed

theorem search_documents_range_witness:
  "list_all (\<lambda>p. 0 \<le> snd p \<and> snd p \<le> 2)
     (take 5 (ranking ranked_env (chroma two_document_world) (encode ranked_env ''hello'')))
   \<and> fst (search_documents ranked_env \<lparr>sq_query = ''hello''\<rparr> two_document_world)
       = Inr [row_document row_a [''hello''] (Some (3 / 4)), row_document row_b [] (Some (1 / 2))]
   \<and> list_all (\<lambda>d. case doc_similarity d of None \<Rightarrow> False | Some s \<Rightarrow> - 1 \<le> s \<and> s \<le> 1)
       [row_document row_a [''hello''] (Some (3 / 4)), row_document row_b [] (Some (1 / 2))]"
proof -
  have h1: "\<forall>p \<in> set (take 5 (ranking ranked_env (chroma two_document_world)
                (encode ranked_env (sq_query \<lparr>sq_query = ''hello''\<rparr>)))). 0 \<le> snd p \<and> snd p \<le> 2"
    by code_simp
  have h2: "fst (search_documents ranked_env \<lparr>sq_query = ''hello''\<rparr> two_document_world)
       = Inr [row_document row_a [''hello''] (Some (3 / 4)), row_document row_b [] (Some (1 / 2))]"
    by code_simp
  have c: "\<forall>d \<in> set [row_document row_a [''hello''] (Some (3 / 4)), row_document row_b [] (Some (1 / 2))].
             \<exists>s. doc_similarity d = Some s \<and> - 1 \<le> s \<and> s \<le> 1"
    by (rule search_documents_range [OF h1 h2])
  have a: "list_all (\<lambda>p. 0 \<le> snd p \<and> snd p \<le> 2)
     (take 5 (ranking ranked_env (chroma two_document_world) (encode ranked_env ''hello'')))"
    using h1 by (simp add: list_all_iff)
  have b: "list_all (\<lambda>d. case doc_similarity d of None \<Rightarrow> False | Some s \<Rightarrow> - 1 \<le> s \<and> s \<le> 1)
       [row_document row_a [''hello''] (Some (3 / 4)), row_document row_b [] (Some (1 / 2))]"
    using c by (auto simp add: list_all_iff)
  from a h2 b show ?thesis by simp
qed

end
